theory Spec2Isabelle
  imports Complex_Main
begin

section \<open>MotionLab: the animation viewer of src/App.js\<close>

text \<open>
  The component \<^verbatim>\<open>SimpleFBXViewer\<close> keeps React state (\<^verbatim>\<open>useState\<close>), refs that survive
  re-rendering (\<^verbatim>\<open>useRef\<close>) and hands callbacks to timers, to the FBX loader and to
  \<^verbatim>\<open>requestAnimationFrame\<close>. The embedding is a state record and one function per
  handler or callback. A callback that JavaScript creates as a closure carries the values
  it closed over (the \<^verbatim>\<open>speed\<close> and \<^verbatim>\<open>isPaused\<close> constants of the render that created it)
  as explicit arguments. Every handler starts from the state of the latest render: React
  re-renders between two events.
\<close>

subsection \<open>JavaScript numbers\<close>

text \<open>
  A JavaScript number is an IEEE 754 double: one of the three non-finite values, or a
  real \<open>m \<sqdot> 2\<^sup>k\<close> with an integer \<open>m\<close> of at most 53 bits and \<open>-1074 \<le> k \<le> 971\<close>. An operation
  rounds its exact result to the nearest such number, a tie to the even \<open>m\<close>, and gives
  an infinity when the rounded result reaches \<open>2\<^sup>1\<^sup>0\<^sup>2\<^sup>4\<close>. The sign of zero is not
  modelled.
\<close>

datatype jsnum = Fin real | PosInf | NegInf | NaN

text \<open>The binary exponent of a number, not below the one of the subnormal numbers, and
  the distance of neighbouring doubles there.\<close>

definition binade :: "real \<Rightarrow> int" where
  "binade x = max (- 1022) \<lfloor>log 2 \<bar>x\<bar>\<rfloor>"

definition ulp :: "real \<Rightarrow> real" where
  "ulp x = 2 powi (binade x - 52)"

text \<open>The nearest integer, a tie going to the even one.\<close>

definition ties_even :: "real \<Rightarrow> int" where
  "ties_even y =
     (let f = \<lfloor>y\<rfloor> in
      if y - of_int f < 1/2 then f
      else if 1/2 < y - of_int f then f + 1
      else if even f then f else f + 1)"

definition rounded :: "real \<Rightarrow> real" where
  "rounded x = (if x = 0 then 0 else ulp x * of_int (ties_even (x / ulp x)))"

definition to_double :: "real \<Rightarrow> jsnum" where
  "to_double x =
     (if 2 ^ 1024 \<le> \<bar>rounded x\<bar> then (if 0 < x then PosInf else NegInf)
      else Fin (rounded x))"

fun isFinite :: "jsnum \<Rightarrow> bool" where
  "isFinite (Fin _) = True"
| "isFinite _ = False"

fun js_neg :: "jsnum \<Rightarrow> jsnum" where
  "js_neg (Fin a) = Fin (- a)"
| "js_neg PosInf = NegInf"
| "js_neg NegInf = PosInf"
| "js_neg NaN = NaN"

fun js_add :: "jsnum \<Rightarrow> jsnum \<Rightarrow> jsnum" where
  "js_add NaN _ = NaN"
| "js_add _ NaN = NaN"
| "js_add (Fin a) (Fin b) = to_double (a + b)"
| "js_add PosInf NegInf = NaN"
| "js_add NegInf PosInf = NaN"
| "js_add PosInf _ = PosInf"
| "js_add NegInf _ = NegInf"
| "js_add _ PosInf = PosInf"
| "js_add _ NegInf = NegInf"

definition js_sub :: "jsnum \<Rightarrow> jsnum \<Rightarrow> jsnum" where
  "js_sub a b = js_add a (js_neg b)"

text \<open>The sign of a number: \<open>1\<close>, \<open>-1\<close> or \<open>0\<close>; not defined for NaN (0 there).\<close>

fun js_sgn :: "jsnum \<Rightarrow> real" where
  "js_sgn (Fin a) = sgn a"
| "js_sgn PosInf = 1"
| "js_sgn NegInf = - 1"
| "js_sgn NaN = 0"

definition inf_of_sign :: "real \<Rightarrow> jsnum" where
  "inf_of_sign r = (if r = 0 then NaN else if 0 < r then PosInf else NegInf)"

fun js_mul :: "jsnum \<Rightarrow> jsnum \<Rightarrow> jsnum" where
  "js_mul NaN _ = NaN"
| "js_mul _ NaN = NaN"
| "js_mul (Fin a) (Fin b) = to_double (a * b)"
| "js_mul a b = inf_of_sign (js_sgn a * js_sgn b)"

fun js_div :: "jsnum \<Rightarrow> jsnum \<Rightarrow> jsnum" where
  "js_div NaN _ = NaN"
| "js_div _ NaN = NaN"
| "js_div (Fin a) (Fin b) = (if b = 0 then inf_of_sign (sgn a) else to_double (a / b))"
| "js_div (Fin a) _ = Fin 0"
| "js_div a (Fin b) = inf_of_sign (js_sgn a * (if b < 0 then - 1 else 1))"
| "js_div _ _ = NaN"

text \<open>\<^verbatim>\<open>a < b\<close>: false as soon as one side is NaN.\<close>

fun js_less :: "jsnum \<Rightarrow> jsnum \<Rightarrow> bool" where
  "js_less NaN _ = False"
| "js_less _ NaN = False"
| "js_less (Fin a) (Fin b) = (a < b)"
| "js_less PosInf _ = False"
| "js_less NegInf NegInf = False"
| "js_less NegInf _ = True"
| "js_less (Fin a) PosInf = True"
| "js_less (Fin a) NegInf = False"

text \<open>\<^verbatim>\<open>Math.max(a, b)\<close>: NaN as soon as one argument is NaN.\<close>

fun js_max :: "jsnum \<Rightarrow> jsnum \<Rightarrow> jsnum" where
  "js_max NaN _ = NaN"
| "js_max _ NaN = NaN"
| "js_max a b = (if js_less a b then b else a)"

definition Math_max3 :: "jsnum \<Rightarrow> jsnum \<Rightarrow> jsnum \<Rightarrow> jsnum" where
  "Math_max3 a b c = js_max (js_max a b) c"

subsection \<open>The engine's vectors and boxes\<close>

record vector3 =
  vx :: jsnum
  vy :: jsnum
  vz :: jsnum

definition setScalar :: "jsnum \<Rightarrow> vector3" where
  "setScalar s = \<lparr>vx = s, vy = s, vz = s\<rparr>"

record box3 =
  bmin :: vector3
  bmax :: vector3

text \<open>
  \<^verbatim>\<open>Box3.isEmpty\<close>, \<^verbatim>\<open>getCenter\<close> and \<^verbatim>\<open>getSize\<close> of the render engine: an empty box has
  a maximum below its minimum on some axis, and its centre and size are the zero vector.
\<close>

definition isEmpty :: "box3 \<Rightarrow> bool" where
  "isEmpty b = (js_less (vx (bmax b)) (vx (bmin b)) \<or> js_less (vy (bmax b)) (vy (bmin b))
     \<or> js_less (vz (bmax b)) (vz (bmin b)))"

definition getCenter :: "box3 \<Rightarrow> vector3" where
  "getCenter b = (if isEmpty b then setScalar (Fin 0)
     else \<lparr>vx = js_mul (js_add (vx (bmin b)) (vx (bmax b))) (Fin (1/2)),
           vy = js_mul (js_add (vy (bmin b)) (vy (bmax b))) (Fin (1/2)),
           vz = js_mul (js_add (vz (bmin b)) (vz (bmax b))) (Fin (1/2))\<rparr>)"

definition getSize :: "box3 \<Rightarrow> vector3" where
  "getSize b = (if isEmpty b then setScalar (Fin 0)
     else \<lparr>vx = js_sub (vx (bmax b)) (vx (bmin b)),
           vy = js_sub (vy (bmax b)) (vy (bmin b)),
           vz = js_sub (vz (bmax b)) (vz (bmin b))\<rparr>)"

subsection \<open>Data model\<close>

text \<open>An entry of the \<^verbatim>\<open>animations\<close> state: \<^verbatim>\<open>{ id, name, loaded, active }\<close>.\<close>

record descriptor =
  anim_id :: string
  anim_name :: string
  loaded :: bool
  active :: bool

datatype material = LoaderMaterial | MeshStandardMaterial nat real

record mesh =
  castShadow :: bool
  receiveShadow :: bool
  mesh_material :: material

text \<open>
  The object the loader hands to the success callback. \<open>handle\<close> is the identity of the
  object; \<open>box\<close> is what \<^verbatim>\<open>new THREE.Box3().setFromObject(fbx)\<close> computes for it as loaded
  (scale 1, position 0); \<open>clips\<close> is \<^verbatim>\<open>fbx.animations.length\<close> (0 also when there is
  no such array).
\<close>

record fbx =
  handle :: nat
  box :: box3
  clips :: nat
  meshes :: "mesh list"
  fscale :: vector3
  fposition :: vector3

record mixer =
  mixer_id :: nat
  mixer_root :: nat

text \<open>A clip action; \<open>owner\<close> is the mixer that created it, \<open>scheduled\<close> is set by \<^verbatim>\<open>play()\<close>.\<close>

record action =
  owner :: nat
  timeScale :: real
  paused :: bool
  enabled :: bool
  scheduled :: bool
  clipTime :: real
  loopInfinite :: bool
  clampWhenFinished :: bool

text \<open>What hangs in the scene; a loaded asset by its identity and the number of its meshes.\<close>

datatype obj = GridHelper | AmbientLight | DirectionalLight | FbxModel nat nat

text \<open>The closure of a pending \<^verbatim>\<open>setTimeout\<close>, with the \<^verbatim>\<open>speed\<close> and \<^verbatim>\<open>isPaused\<close> of
  the render whose \<^verbatim>\<open>loadAnimationModel\<close> it calls.\<close>

datatype timer = InitialLoadTimer real bool | SelectionTimer string real bool

text \<open>A load in flight: the closure of the callbacks given to \<^verbatim>\<open>loader.load\<close>. It holds
  the loader (its \<^verbatim>\<open>loadingId\<close> property), the constant \<^verbatim>\<open>loadId\<close>, the animation id and
  the render's \<^verbatim>\<open>speed\<close> and \<^verbatim>\<open>isPaused\<close>.\<close>

record request =
  req_no :: nat
  req_animationId :: string
  loader_loadingId :: nat
  loadId :: nat
  req_speed :: real
  req_isPaused :: bool

datatype logmsg =
    SpeedSetTo real | AnimationPaused | AnimationResumed
  | AnimationNotFound string | AlreadyActive string | SwitchingTo string
  | SceneNotInitialized string | LoadingModel string | IgnoringCompletedLoad string
  | LoadedSuccessfully string | BoundingBoxEmpty | UsingDefaultScale | ScaledBy jsnum
  | ModelHasAnimations nat | ForcingStart | StartedWithSpeed real | ErrorSettingUp
  | NoAnimationsFound | SceneNoLongerExists | LoadingProgress string int
  | ErrorLoadingModel string | ExceptionDuringLoad string | KeyboardShortcut bool
  | ComponentMounted | SceneAlreadyExists | SceneCreated | CameraCreated
  | RendererAttached | MountRefNotFound | GroundCreated | GridCreated | CubeCreated
  | AxesCreated | LightsCreated | ControlsCreated | ErrorInAnimationUpdate
  | Unmounting | ErrorStoppingAnimations | ErrorDuringCleanup

text \<open>Calls into the render engine and the browser that leave no trace in the refs.\<close>

datatype engine_call =
    StopAllAction nat | CancelAnimationFrame nat | RendererDispose | DisposeResources obj

text \<open>
  The state: the \<^verbatim>\<open>useState\<close> values, the refs, and the environment (pending timers,
  loads in flight, scheduled frame callbacks, counters for fresh identities, whether the
  mount effect returned its cleanup function, whether the canvas hangs in the mount node).
\<close>

record state =
  log_entries :: "logmsg list"
  speed :: real
  isPaused :: bool
  isLoading :: bool
  loadingProgress :: int
  selectedAnimation :: string
  animations :: "descriptor list"
  mixerRef :: "mixer option"
  modelRef :: "fbx option"
  sceneRef :: "obj list option"
  currentAnimationRef :: "action option"
  rendererRef :: bool
  clockRef :: bool
  animationFrameIdRef :: "nat option"
  timers :: "timer list"
  inflight :: "request list"
  pendingFrames :: "nat list"
  nextFrameId :: nat
  nextObject :: nat
  cleanupRegistered :: bool
  canvasAttached :: bool
  framesRendered :: nat
  calls :: "engine_call list"

definition initial_animations :: "descriptor list" where
  "initial_animations =
    [\<lparr>anim_id = ''startwalk'', anim_name = ''Walking'', loaded = False, active = False\<rparr>,
     \<lparr>anim_id = ''seated'', anim_name = ''Sitting'', loaded = False, active = False\<rparr>,
     \<lparr>anim_id = ''shakehand'', anim_name = ''Shake Hand'', loaded = False, active = False\<rparr>,
     \<lparr>anim_id = ''drinking'', anim_name = ''Drinking'', loaded = False, active = False\<rparr>,
     \<lparr>anim_id = ''jumping'', anim_name = ''Jumping'', loaded = False, active = False\<rparr>]"

definition initial_state :: state where
  "initial_state =
    \<lparr>log_entries = [], speed = 1, isPaused = False, isLoading = True, loadingProgress = 0,
     selectedAnimation = ''startwalk'', animations = initial_animations,
     mixerRef = None, modelRef = None, sceneRef = None, currentAnimationRef = None,
     rendererRef = False, clockRef = False, animationFrameIdRef = None,
     timers = [], inflight = [], pendingFrames = [], nextFrameId = 1, nextObject = 0,
     cleanupRegistered = False, canvasAttached = False, framesRendered = 0, calls = []\<rparr>"

subsection \<open>Playback controls\<close>

definition addLog :: "logmsg \<Rightarrow> state \<Rightarrow> state" where
  "addLog message s = s\<lparr>log_entries := log_entries s @ [message]\<rparr>"

text \<open>\<^verbatim>\<open>Action.setEffectiveTimeScale(f)\<close> of the engine stores \<open>f\<close> as the action's time scale;
  the clip time and the paused property stay as they are.\<close>

definition setEffectiveTimeScale :: "real \<Rightarrow> action \<Rightarrow> action" where
  "setEffectiveTimeScale f a = a\<lparr>timeScale := f\<rparr>"

definition updateSpeed :: "real \<Rightarrow> state \<Rightarrow> state" where
  "updateSpeed newSpeed s =
    (let s1 = s\<lparr>speed := newSpeed\<rparr> in
     case currentAnimationRef s1 of
       None \<Rightarrow> s1
     | Some a \<Rightarrow>
        (case mixerRef s1 of
           None \<Rightarrow> s1
         | Some m \<Rightarrow>
            addLog (SpeedSetTo newSpeed)
              (s1\<lparr>currentAnimationRef := Some (setEffectiveTimeScale newSpeed a)\<rparr>)))"

definition togglePause :: "state \<Rightarrow> state" where
  "togglePause s =
    (case mixerRef s of
       None \<Rightarrow> s
     | Some m \<Rightarrow>
        (case currentAnimationRef s of
           None \<Rightarrow> s
         | Some a \<Rightarrow>
            (let newPausedState = (\<not> isPaused s);
                 s1 = (if newPausedState
                       then addLog AnimationPaused (s\<lparr>currentAnimationRef := Some (a\<lparr>paused := True\<rparr>)\<rparr>)
                       else addLog AnimationResumed (s\<lparr>currentAnimationRef := Some (a\<lparr>paused := False\<rparr>)\<rparr>))
             in s1\<lparr>isPaused := newPausedState\<rparr>)))"

text \<open>The keyboard handler: its closure is the one of the latest render (the effect is
  re-run whenever \<^verbatim>\<open>isPaused\<close> changes).\<close>

definition handleKeyPress :: "state \<Rightarrow> state" where
  "handleKeyPress s = addLog (KeyboardShortcut (isPaused s)) (togglePause s)"

subsection \<open>Selection\<close>

definition handleAnimationChange :: "string \<Rightarrow> state \<Rightarrow> state" where
  "handleAnimationChange animationId s =
    (case find (\<lambda>anim. anim_id anim = animationId) (animations s) of
       None \<Rightarrow> addLog (AnimationNotFound animationId) s
     | Some selectedAnim \<Rightarrow>
        if active selectedAnim then addLog (AlreadyActive animationId) s
        else
          (let s1 = addLog (SwitchingTo animationId) s;
               s2 = s1\<lparr>isLoading := True, loadingProgress := 0,
                       selectedAnimation := animationId\<rparr>;
               s3 = s2\<lparr>animations :=
                       map (\<lambda>anim. anim\<lparr>active := (anim_id anim = animationId)\<rparr>) (animations s2)\<rparr>;
               s4 = s3\<lparr>isPaused := False\<rparr>
           in s4\<lparr>timers := timers s4 @ [SelectionTimer animationId (speed s) (isPaused s)]\<rparr>))"

subsection \<open>Loading\<close>

text \<open>\<^verbatim>\<open>scene.remove\<close> and \<^verbatim>\<open>scene.add\<close> on the list of the scene's children; the engine's
  \<^verbatim>\<open>add\<close> takes the object out of its former parent first.\<close>

definition scene_remove :: "obj \<Rightarrow> obj list \<Rightarrow> obj list" where
  "scene_remove ob children = removeAll ob children"

definition scene_add :: "obj \<Rightarrow> obj list \<Rightarrow> obj list" where
  "scene_add ob children = removeAll ob children @ [ob]"

text \<open>\<^verbatim>\<open>action.stop()\<close>, \<^verbatim>\<open>reset()\<close>, \<^verbatim>\<open>play()\<close> and \<^verbatim>\<open>isRunning()\<close> of the engine.\<close>

definition action_reset :: "action \<Rightarrow> action" where
  "action_reset a = a\<lparr>paused := False, enabled := True, clipTime := 0\<rparr>"

definition action_play :: "action \<Rightarrow> action" where
  "action_play a = a\<lparr>scheduled := True\<rparr>"

definition action_stop :: "action \<Rightarrow> action" where
  "action_stop a = action_reset (a\<lparr>scheduled := False\<rparr>)"

definition isRunning :: "action \<Rightarrow> bool" where
  "isRunning a = (enabled a \<and> \<not> paused a \<and> timeScale a \<noteq> 0 \<and> scheduled a)"

definition stopAllAction :: "mixer \<Rightarrow> state \<Rightarrow> state" where
  "stopAllAction m s =
    s\<lparr>calls := calls s @ [StopAllAction (mixer_id m)],
      currentAnimationRef :=
        map_option (\<lambda>a. if owner a = mixer_id m then action_stop a else a) (currentAnimationRef s)\<rparr>"

text \<open>
  \<^verbatim>\<open>loadAnimationModel\<close> up to the call of \<^verbatim>\<open>loader.load\<close>. \<open>speed_c\<close> and \<open>isPaused_c\<close> are
  the constants of the render this closure belongs to, \<open>now\<close> is \<^verbatim>\<open>Date.now()\<close>, and
  \<open>loadThrows\<close> says that creating the loader or starting the load throws (the outer
  \<^verbatim>\<open>try\<close>). The callbacks are kept as a request in flight.
\<close>

definition loadAnimationModel :: "real \<Rightarrow> bool \<Rightarrow> nat \<Rightarrow> bool \<Rightarrow> string \<Rightarrow> state \<Rightarrow> state" where
  "loadAnimationModel speed_c isPaused_c now loadThrows animationId s =
    (case sceneRef s of
       None \<Rightarrow> addLog (SceneNotInitialized animationId) s
     | Some _ \<Rightarrow>
        (let s1 = addLog (LoadingModel animationId) s;
             s2 = (case modelRef s1 of
                     None \<Rightarrow> s1
                   | Some old \<Rightarrow>
                      s1\<lparr>sceneRef := map_option (scene_remove (FbxModel (handle old) (length (meshes old))))
                                     (sceneRef s1),
                         modelRef := None\<rparr>);
             s3 = (case mixerRef s2 of
                     None \<Rightarrow> s2
                   | Some m \<Rightarrow> (stopAllAction m s2)\<lparr>mixerRef := None, currentAnimationRef := None\<rparr>)
         in if loadThrows
            then (addLog (ExceptionDuringLoad animationId) s3)\<lparr>isLoading := False\<rparr>
            else s3\<lparr>inflight := inflight s3 @
                       [\<lparr>req_no = nextObject s3, req_animationId = animationId,
                         loader_loadingId = now, loadId = now,
                         req_speed = speed_c, req_isPaused = isPaused_c\<rparr>],
                    nextObject := Suc (nextObject s3)\<rparr>))"

text \<open>The block "Auto-scale and center" of the success callback: the messages it logs and
  the object with its new scale and position.\<close>

definition autoScaleAndCenter :: "fbx \<Rightarrow> logmsg list \<times> fbx" where
  "autoScaleAndCenter f =
    (let b = box f;
         msgs0 = (if isEmpty b then [BoundingBoxEmpty] else []);
         center = getCenter b;
         size = getSize b;
         maxDim = Math_max3 (vx size) (vy size) (vz size);
         (msgs1, f1) =
           (if maxDim = Fin 0 \<or> \<not> isFinite maxDim
            then ([UsingDefaultScale], f\<lparr>fscale := setScalar (to_double (1/10))\<rparr>)
            else (let targetSize = Fin 100;
                      scale = js_div targetSize maxDim
                  in ([ScaledBy scale], f\<lparr>fscale := setScalar scale\<rparr>)));
         f2 = f1\<lparr>fposition :=
                \<lparr>vx = js_mul (js_neg (vx center)) (vx (fscale f1)),
                 vy = js_add (js_mul (js_neg (vy center)) (vy (fscale f1)))
                        (js_mul (js_div (vy size) (Fin 2)) (vy (fscale f1))),
                 vz = js_mul (js_neg (vz center)) (vz (fscale f1))\<rparr>\<rparr>
     in (msgs0 @ msgs1, f2))"

definition setupMaterials :: "fbx \<Rightarrow> fbx" where
  "setupMaterials f =
    f\<lparr>meshes := map (\<lambda>child. child\<lparr>castShadow := True, receiveShadow := True,
                       mesh_material := MeshStandardMaterial 0xc9c9c9 (1/2)\<rparr>) (meshes f)\<rparr>"

text \<open>Where the inner \<^verbatim>\<open>try\<close> of the success callback may leave to its \<^verbatim>\<open>catch\<close>: in the
  mixer's constructor, or in \<^verbatim>\<open>clipAction\<close> once the mixer is stored in its ref.\<close>

datatype setup_fault = NoFault | MixerConstructorThrows | ClipActionThrows

definition setupAnimation :: "request \<Rightarrow> fbx \<Rightarrow> setup_fault \<Rightarrow> state \<Rightarrow> state" where
  "setupAnimation r f fault s =
    (let m = \<lparr>mixer_id = nextObject s, mixer_root = handle f\<rparr> in
     case fault of
       MixerConstructorThrows \<Rightarrow> (addLog ErrorSettingUp s)\<lparr>isLoading := False\<rparr>
     | ClipActionThrows \<Rightarrow>
        (addLog ErrorSettingUp (s\<lparr>mixerRef := Some m, nextObject := Suc (nextObject s)\<rparr>))
          \<lparr>isLoading := False\<rparr>
     | NoFault \<Rightarrow>
        (let s1 = s\<lparr>mixerRef := Some m, nextObject := Suc (nextObject s)\<rparr>;
             a0 = \<lparr>owner = mixer_id m, timeScale = 1, paused = False, enabled = True,
                   scheduled = False, clipTime = 0, loopInfinite = True,
                   clampWhenFinished = False\<rparr>;
             a1 = a0\<lparr>loopInfinite := True\<rparr>;
             a2 = a1\<lparr>clampWhenFinished := False\<rparr>;
             a3 = a2\<lparr>timeScale := req_speed r\<rparr>;
             a4 = action_play (action_reset a3);
             a5 = (if req_isPaused r then a4\<lparr>paused := True\<rparr> else a4);
             force = (\<not> isRunning a5 \<and> \<not> req_isPaused r);
             a6 = (if force then action_play a5 else a5);
             s2 = (if force then addLog ForcingStart s1 else s1);
             s3 = addLog (StartedWithSpeed (req_speed r)) (s2\<lparr>currentAnimationRef := Some a6\<rparr>)
         in s3\<lparr>animations :=
                 map (\<lambda>anim. anim\<lparr>loaded := (if anim_id anim = req_animationId r then True
                                               else loaded anim),
                                   active := (anim_id anim = req_animationId r)\<rparr>)
                   (animations s3)\<rparr>))"

text \<open>The success callback of \<^verbatim>\<open>loader.load\<close>.\<close>

definition onLoad :: "request \<Rightarrow> fbx \<Rightarrow> setup_fault \<Rightarrow> state \<Rightarrow> state" where
  "onLoad r f fault s =
    (if loader_loadingId r \<noteq> loadId r
     then addLog (IgnoringCompletedLoad (req_animationId r)) s
     else
       (let s1 = (addLog (LoadedSuccessfully (req_animationId r)) s)\<lparr>isLoading := False\<rparr>;
            (msgs, f1) = autoScaleAndCenter f;
            s2 = s1\<lparr>log_entries := log_entries s1 @ msgs\<rparr>;
            f2 = setupMaterials f1;
            s3 = s2\<lparr>modelRef := Some f2\<rparr>
        in case sceneRef s3 of
             None \<Rightarrow> (addLog SceneNoLongerExists s3)\<lparr>isLoading := False\<rparr>
           | Some children \<Rightarrow>
              (let s4 = s3\<lparr>sceneRef :=
                          Some (scene_add (FbxModel (handle f2) (length (meshes f2))) children)\<rparr> in
               if 0 < clips f2
               then setupAnimation r f2 fault (addLog (ModelHasAnimations (clips f2)) s4)
               else (addLog NoAnimationsFound s4)\<lparr>isLoading := False\<rparr>)))"

text \<open>The progress callback; \<open>percent\<close> is \<^verbatim>\<open>Math.floor((xhr.loaded / xhr.total) * 100)\<close>.\<close>

definition onProgress :: "request \<Rightarrow> bool \<Rightarrow> int \<Rightarrow> state \<Rightarrow> state" where
  "onProgress r lengthComputable percent s =
    (if lengthComputable
     then (let s1 = s\<lparr>loadingProgress := percent\<rparr> in
           if percent mod 10 = 0 then addLog (LoadingProgress (req_animationId r) percent) s1
           else s1)
     else s)"

text \<open>The error callback.\<close>

definition onError :: "request \<Rightarrow> state \<Rightarrow> state" where
  "onError r s =
    (let s1 = (addLog (ErrorLoadingModel (req_animationId r)) s)\<lparr>isLoading := False\<rparr> in
     s1\<lparr>animations :=
          map (\<lambda>anim. anim\<lparr>active := (if anim_id anim = req_animationId r then False
                                       else active anim)\<rparr>)
            (animations s1)\<rparr>)"

subsection \<open>The frame loop, mounting and teardown\<close>

text \<open>\<^verbatim>\<open>mixer.update(delta)\<close>: the mixer advances its own scheduled action unless it is paused.
  The clip's duration is not modelled: \<open>clipTime\<close> is the time played, not wrapped.\<close>

definition mixer_update :: "mixer \<Rightarrow> real \<Rightarrow> state \<Rightarrow> state" where
  "mixer_update m delta s =
    s\<lparr>currentAnimationRef :=
        map_option
          (\<lambda>a. if owner a = mixer_id m \<and> scheduled a \<and> enabled a \<and> \<not> paused a
               then a\<lparr>clipTime := clipTime a + delta * timeScale a\<rparr> else a)
          (currentAnimationRef s)\<rparr>"

text \<open>One call of \<^verbatim>\<open>animate\<close>: it schedules itself again, updates the mixer (\<open>updateThrows\<close>:
  the update throws and the \<^verbatim>\<open>catch\<close> logs it) and renders.\<close>

definition animate :: "real \<Rightarrow> bool \<Rightarrow> state \<Rightarrow> state" where
  "animate delta updateThrows s =
    (let i = nextFrameId s;
         s1 = s\<lparr>animationFrameIdRef := Some i, pendingFrames := pendingFrames s @ [i],
                nextFrameId := Suc i\<rparr>;
         s2 = (case mixerRef s1 of
                 None \<Rightarrow> s1
               | Some m \<Rightarrow>
                  if updateThrows then addLog ErrorInAnimationUpdate s1
                  else mixer_update m delta s1)
     in s2\<lparr>framesRendered := Suc (framesRendered s2)\<rparr>)"

text \<open>The browser runs the oldest scheduled frame callback, if there is one.\<close>

definition frame :: "real \<Rightarrow> bool \<Rightarrow> state \<Rightarrow> state" where
  "frame delta updateThrows s =
    (case pendingFrames s of
       [] \<Rightarrow> s
     | i # rest \<Rightarrow> animate delta updateThrows (s\<lparr>pendingFrames := rest\<rparr>))"

text \<open>The mount effect. \<open>mountPresent\<close>: \<^verbatim>\<open>mountRef.current\<close> is set. The effect returns its
  cleanup function only when it runs to its end.\<close>

definition mountEffect :: "bool \<Rightarrow> state \<Rightarrow> state" where
  "mountEffect mountPresent s =
    (let s1 = addLog ComponentMounted s in
     case sceneRef s1 of
       Some _ \<Rightarrow> (addLog SceneAlreadyExists s1)\<lparr>cleanupRegistered := False\<rparr>
     | None \<Rightarrow>
        (let s2 = addLog SceneCreated (s1\<lparr>sceneRef := Some []\<rparr>);
             s3 = addLog CameraCreated s2;
             s4 = s3\<lparr>rendererRef := True\<rparr>
         in if \<not> mountPresent
            then (addLog MountRefNotFound s4)\<lparr>cleanupRegistered := False\<rparr>
            else
              (let s5 = addLog RendererAttached (s4\<lparr>canvasAttached := True\<rparr>);
                   s6 = addLog GroundCreated s5;
                   s7 = addLog GridCreated
                          (s6\<lparr>sceneRef := map_option (scene_add GridHelper) (sceneRef s6)\<rparr>);
                   s8 = addLog AxesCreated (addLog CubeCreated s7);
                   s9 = s8\<lparr>sceneRef := map_option (scene_add AmbientLight) (sceneRef s8)\<rparr>;
                   s10 = addLog LightsCreated
                          (s9\<lparr>sceneRef := map_option (scene_add DirectionalLight) (sceneRef s9)\<rparr>);
                   s11 = addLog ControlsCreated s10;
                   s12 = s11\<lparr>clockRef := True\<rparr>;
                   s13 = s12\<lparr>timers := timers s12 @ [InitialLoadTimer (speed s) (isPaused s)]\<rparr>;
                   s14 = animate 0 False s13
               in s14\<lparr>cleanupRegistered := True\<rparr>)))"

text \<open>What the cleanup's traversal disposes: objects with a geometry or a material. These
  are the grid's lines and, under a loaded asset, its meshes; the lights have neither.\<close>

fun hasResources :: "obj \<Rightarrow> bool" where
  "hasResources GridHelper = True"
| "hasResources (FbxModel _ n) = (0 < n)"
| "hasResources _ = False"

text \<open>
  The cleanup function of the mount effect. \<open>mountPresent\<close>: \<^verbatim>\<open>mountRef.current\<close> is still
  set; \<open>stopThrows\<close> and \<open>disposeThrows\<close>: the calls inside the two \<^verbatim>\<open>try\<close> blocks throw.
\<close>

definition teardown :: "bool \<Rightarrow> bool \<Rightarrow> bool \<Rightarrow> state \<Rightarrow> state" where
  "teardown mountPresent stopThrows disposeThrows s =
    (let s1 = addLog Unmounting s;
         s2 = (case animationFrameIdRef s1 of
                 None \<Rightarrow> s1
               | Some i \<Rightarrow>
                  if i = 0 then s1
                  else s1\<lparr>pendingFrames := removeAll i (pendingFrames s1),
                          calls := calls s1 @ [CancelAnimationFrame i]\<rparr>);
         s3 = (case mixerRef s2 of
                 None \<Rightarrow> s2
               | Some m \<Rightarrow>
                  if stopThrows then addLog ErrorStoppingAnimations s2
                  else stopAllAction m s2);
         s4 = (if mountPresent \<and> rendererRef s3 \<and> canvasAttached s3
               then s3\<lparr>canvasAttached := False\<rparr> else s3);
         s5 = (if disposeThrows \<and> (rendererRef s4 \<or> sceneRef s4 \<noteq> None)
               then addLog ErrorDuringCleanup s4
               else
                 (let s4a = (if rendererRef s4 then s4\<lparr>calls := calls s4 @ [RendererDispose]\<rparr>
                             else s4)
                  in case sceneRef s4a of
                       None \<Rightarrow> s4a
                     | Some children \<Rightarrow>
                        s4a\<lparr>calls := calls s4a @
                                map DisposeResources (filter hasResources children)\<rparr>))
     in s5\<lparr>sceneRef := None, modelRef := None, mixerRef := None,
           currentAnimationRef := None, rendererRef := False, clockRef := False,
           animationFrameIdRef := None, cleanupRegistered := False\<rparr>)"

subsection \<open>Events\<close>

text \<open>
  What can happen to the component, one event at a time (the page is single-threaded):
  the effects of mounting and unmounting, a pending timer firing (by its place in the
  list, at \<^verbatim>\<open>Date.now()\<close>), a load in flight reporting progress, succeeding or failing
  (by its request number), the user's commands and a frame.
\<close>

datatype event =
    Mount bool
  | Unmount bool bool bool
  | TimerFires nat nat bool
  | LoadSucceeds nat fbx setup_fault
  | LoadFails nat
  | LoadProgresses nat bool int
  | SelectOption string
  | ClickPause
  | PressSpace
  | MoveSpeedSlider real
  | Frame real bool

fun fireTimer :: "timer \<Rightarrow> nat \<Rightarrow> bool \<Rightarrow> state \<Rightarrow> state" where
  "fireTimer (InitialLoadTimer speed_c isPaused_c) now loadThrows s =
    (let s1 = loadAnimationModel speed_c isPaused_c now loadThrows ''startwalk'' s in
     s1\<lparr>animations :=
          map (\<lambda>anim. anim\<lparr>active := (anim_id anim = ''startwalk'')\<rparr>) (animations s1)\<rparr>)"
| "fireTimer (SelectionTimer animationId speed_c isPaused_c) now loadThrows s =
    loadAnimationModel speed_c isPaused_c now loadThrows animationId s"

definition complete :: "nat \<Rightarrow> (request \<Rightarrow> state \<Rightarrow> state) \<Rightarrow> state \<Rightarrow> state" where
  "complete k callback s =
    (case find (\<lambda>r. req_no r = k) (inflight s) of
       None \<Rightarrow> s
     | Some r \<Rightarrow> callback r (s\<lparr>inflight := filter (\<lambda>r. req_no r \<noteq> k) (inflight s)\<rparr>))"

text \<open>The loader hands over a new object: unscaled, at the origin, with an identity of its
  own (the request's number). The pause button and the speed slider are disabled while
  \<^verbatim>\<open>isLoading\<close> is set; the keyboard shortcut and the dropdown are not.\<close>

fun step :: "event \<Rightarrow> state \<Rightarrow> state" where
  "step (Mount mountPresent) s = mountEffect mountPresent s"
| "step (Unmount mountPresent stopThrows disposeThrows) s =
    (if cleanupRegistered s then teardown mountPresent stopThrows disposeThrows s else s)"
| "step (TimerFires n now loadThrows) s =
    (if n < length (timers s)
     then fireTimer (timers s ! n) now loadThrows
            (s\<lparr>timers := take n (timers s) @ drop (Suc n) (timers s)\<rparr>)
     else s)"
| "step (LoadSucceeds k f fault) s =
    complete k (\<lambda>r. onLoad r (f\<lparr>handle := k, fscale := setScalar (Fin 1),
                                  fposition := setScalar (Fin 0)\<rparr>) fault) s"
| "step (LoadFails k) s = complete k onError s"
| "step (LoadProgresses k lengthComputable percent) s =
    (case find (\<lambda>r. req_no r = k) (inflight s) of
       None \<Rightarrow> s
     | Some r \<Rightarrow> onProgress r lengthComputable percent s)"
| "step (SelectOption animationId) s = handleAnimationChange animationId s"
| "step ClickPause s = (if isLoading s then s else togglePause s)"
| "step PressSpace s = handleKeyPress s"
| "step (MoveSpeedSlider newSpeed) s = (if isLoading s then s else updateSpeed newSpeed s)"
| "step (Frame delta updateThrows) s = frame delta updateThrows s"

fun run :: "event list \<Rightarrow> state \<Rightarrow> state" where
  "run [] s = s"
| "run (e # es) s = run es (step e s)"

subsection \<open>Notions used by the properties\<close>

text \<open>The three updaters the source passes to \<^verbatim>\<open>setAnimations\<close>, by name.\<close>

definition activateOnly :: "string \<Rightarrow> descriptor list \<Rightarrow> descriptor list" where
  "activateOnly t ds = map (\<lambda>anim. anim\<lparr>active := (anim_id anim = t)\<rparr>) ds"

definition markLoadedActive :: "string \<Rightarrow> descriptor list \<Rightarrow> descriptor list" where
  "markLoadedActive t ds =
     map (\<lambda>anim. anim\<lparr>loaded := (if anim_id anim = t then True else loaded anim),
                       active := (anim_id anim = t)\<rparr>) ds"

definition deactivate :: "string \<Rightarrow> descriptor list \<Rightarrow> descriptor list" where
  "deactivate t ds =
     map (\<lambda>anim. anim\<lparr>active := (if anim_id anim = t then False else active anim)\<rparr>) ds"

definition updated :: "descriptor list \<Rightarrow> descriptor list \<Rightarrow> bool" where
  "updated ds ds' =
     (ds' = ds \<or> (\<exists>t. ds' = activateOnly t ds) \<or> (\<exists>t. ds' = markLoadedActive t ds)
      \<or> (\<exists>t. ds' = deactivate t ds))"

text \<open>The largest dimension of a box, as the source computes it (\<^verbatim>\<open>maxDim\<close>).\<close>

definition maxDim :: "box3 \<Rightarrow> jsnum" where
  "maxDim b = Math_max3 (vx (getSize b)) (vy (getSize b)) (vz (getSize b))"










text \<open>The descriptors' ids are distinct and at most one descriptor is active.\<close>

definition one_active :: "state \<Rightarrow> bool" where
  "one_active s = (distinct (map anim_id (animations s))
     \<and> length (filter active (animations s)) \<le> Suc 0)"


text \<open>A sample asset: one mesh in a box of 2 by 4 by 2 standing on the ground, and one
  clip.\<close>

definition asset :: fbx where
  "asset = \<lparr>handle = 0,
     box = \<lparr>bmin = \<lparr>vx = Fin (- 1), vy = Fin 0, vz = Fin (- 1)\<rparr>,
            bmax = \<lparr>vx = Fin 1, vy = Fin 4, vz = Fin 1\<rparr>\<rparr>,
     clips = 1,
     meshes = [\<lparr>castShadow = False, receiveShadow = False, mesh_material = LoaderMaterial\<rparr>],
     fscale = setScalar (Fin 1), fposition = setScalar (Fin 0)\<rparr>"





text \<open>The component mounts, the initial timer fires and the load of \<^verbatim>\<open>startwalk\<close> succeeds.\<close>

definition walking :: "event list" where
  "walking = [Mount True, TimerFires 0 1000 False, LoadSucceeds 0 asset NoFault]"

text \<open>
  What the frame loop relies on: frame ids are positive, and at most one frame callback
  is scheduled, namely the one whose id \<^verbatim>\<open>animationFrameIdRef\<close> holds, while a scene exists.
  \<open>frame_view\<close> collects the parts of the state this speaks about.
\<close>

definition frame_view :: "state \<Rightarrow> nat list \<times> nat option \<times> nat \<times> bool" where
  "frame_view s = (pendingFrames s, animationFrameIdRef s, nextFrameId s, sceneRef s = None)"

definition frames_tracked :: "state \<Rightarrow> bool" where
  "frames_tracked s =
     (0 < nextFrameId s
      \<and> (pendingFrames s = []
         \<or> (\<exists>i. pendingFrames s = [i] \<and> animationFrameIdRef s = Some i \<and> 0 < i
                \<and> sceneRef s \<noteq> None)))"

text \<open>Mounted, with the load of \<^verbatim>\<open>startwalk\<close> still in flight.\<close>

definition loading_first :: "event list" where
  "loading_first = [Mount True, TimerFires 0 1000 False]"

text \<open>Scenarios: the user picks \<^verbatim>\<open>seated\<close> and the 50 ms timer fires; the same after
  pausing the first clip, up to the successful load; and \<^verbatim>\<open>seated\<close> picked and loaded while
  the initial load of \<^verbatim>\<open>startwalk\<close> is still in flight.\<close>

definition select_seated :: "event list" where
  "select_seated = [SelectOption ''seated'', TimerFires 0 2000 False]"

definition paused_then_seated :: "event list" where
  "paused_then_seated =
     walking @ [ClickPause] @ select_seated @ [LoadSucceeds 2 asset NoFault]"

definition overtaken :: "event list" where
  "overtaken = loading_first @ [SelectOption ''seated'', TimerFires 0 1050 False,
     LoadSucceeds 1 asset NoFault]"

text \<open>The ids of the active descriptors.\<close>

definition active_ids :: "state \<Rightarrow> string list" where
  "active_ids s = map anim_id (filter active (animations s))"





text \<open>Every load in flight still carries the token it was issued with.\<close>

definition tokens_match :: "state \<Rightarrow> bool" where
  "tokens_match s = (\<forall>r \<in> set (inflight s). loader_loadingId r = loadId r)"

section \<open>Properties\<close>

lemmas handler_defs =
  mountEffect_def addLog_def animate_def frame_def mixer_update_def scene_add_def
  scene_remove_def loadAnimationModel_def complete_def onLoad_def onError_def
  onProgress_def autoScaleAndCenter_def setupMaterials_def setupAnimation_def
  isEmpty_def getCenter_def getSize_def setScalar_def Math_max3_def js_sub_def
  handleKeyPress_def togglePause_def updateSpeed_def setEffectiveTimeScale_def
  handleAnimationChange_def stopAllAction_def teardown_def
  action_play_def action_reset_def action_stop_def isRunning_def Let_def

lemmas scenario_defs = initial_state_def initial_animations_def asset_def

subsection \<open>Rounding to a double\<close>

lemma ulp_pos [simp]: "0 < ulp x"
  by (simp add: ulp_def)

lemma ties_even_of_int [simp]: "ties_even (of_int n) = n"
  by (simp add: ties_even_def)



lemma floor_log2_bounds:
  assumes "0 < x"
  shows "2 powi \<lfloor>log 2 x\<rfloor> \<le> x" and "x < 2 powi (\<lfloor>log 2 x\<rfloor> + 1)"
proof -
  have "2 powr (of_int \<lfloor>log 2 x\<rfloor>) \<le> x \<and> x < 2 powr (of_int (\<lfloor>log 2 x\<rfloor> + 1))"
    using floor_log_eq_powr_iff [of x 2 "\<lfloor>log 2 x\<rfloor>"] assms by simp
  then show "2 powi \<lfloor>log 2 x\<rfloor> \<le> x" and "x < 2 powi (\<lfloor>log 2 x\<rfloor> + 1)"
    by (simp_all only: powr_real_of_int' [of "2::real", simplified])
qed

lemma floor_log2_less:
  assumes "0 < x" and "x < 2 powi k"
  shows "\<lfloor>log 2 x\<rfloor> < k"
proof (rule ccontr)
  assume "\<not> \<lfloor>log 2 x\<rfloor> < k"
  then have "2 powi k \<le> (2::real) powi \<lfloor>log 2 x\<rfloor>"
    by (intro power_int_increasing) simp_all
  with floor_log2_bounds(1) [OF assms(1)] assms(2) show False by simp
qed


text \<open>A number with a 53-bit significand and an exponent in range is left as it is.\<close>

lemma rounded_exact:
  assumes "\<bar>m\<bar> < 2 ^ 53" and "- 1074 \<le> k"
  shows "rounded (of_int m * 2 powi k) = of_int m * 2 powi k"
proof (cases "m = 0")
  case True
  then show ?thesis by (simp add: rounded_def)
next
  case False
  let ?x = "of_int m * 2 powi k :: real"
  have nz: "?x \<noteq> 0" using False by simp
  have "\<bar>?x\<bar> = of_int \<bar>m\<bar> * 2 powi k" by (simp add: abs_mult)
  also have "\<dots> < 2 ^ 53 * 2 powi k"
    using assms(1) by (intro mult_strict_right_mono) (simp_all add: of_int_less_iff [symmetric] del: of_int_less_iff)
  also have "\<dots> = 2 powi (53 + k)" by (simp add: power_int_add)
  finally have "\<lfloor>log 2 \<bar>?x\<bar>\<rfloor> < 53 + k"
    using nz by (intro floor_log2_less) simp_all
  with assms(2) have "binade ?x - 52 \<le> k" by (simp add: binade_def)
  moreover define b where "b = binade ?x - 52"
  ultimately have b: "b \<le> k" by simp
  have u: "ulp ?x = 2 powi b" by (simp add: ulp_def b_def)
  define j where "j = nat (k - b)"
  have "2 powi k / (2::real) powi b = 2 powi (k - b)"
    by (simp add: power_int_diff)
  also have "\<dots> = 2 powi (int j)" using b by (simp add: j_def)
  also have "\<dots> = 2 ^ j" by (rule power_int_of_nat)
  finally have d: "2 powi k / (2::real) powi b = 2 ^ j" .
  have "?x / ulp ?x = of_int m * (2 powi k / 2 powi b)"
    unfolding u by simp
  also have "\<dots> = of_int m * 2 ^ j" by (simp only: d)
  finally have "?x / ulp ?x = of_int m * 2 ^ j" .
  then have q: "?x / ulp ?x = of_int (m * 2 ^ j)" by simp
  from q have "ties_even (?x / ulp ?x) = m * 2 ^ j"
    by (simp only: ties_even_of_int)
  then have "rounded ?x = ulp ?x * of_int (m * 2 ^ j)"
    using nz by (simp add: rounded_def)
  also have "\<dots> = ulp ?x * (?x / ulp ?x)" by (simp only: q)
  also have "\<dots> = ?x" using ulp_pos [of ?x] by (simp add: less_imp_neq [THEN not_sym])
  finally show ?thesis .
qed





lemma to_double_exact:
  assumes "\<bar>m\<bar> < 2 ^ 53" and "- 1074 \<le> k" and "k \<le> 971"
  shows "to_double (of_int m * 2 powi k) = Fin (of_int m * 2 powi k)"
proof -
  let ?x = "of_int m * 2 powi k :: real"
  have "\<bar>?x\<bar> = of_int \<bar>m\<bar> * 2 powi k" by (simp add: abs_mult)
  also have "\<dots> \<le> of_int \<bar>m\<bar> * 2 powi 971"
    using assms(3) by (intro mult_left_mono power_int_increasing) simp_all
  also have "\<dots> < 2 ^ 53 * 2 powi 971"
    using assms(1)
    by (intro mult_strict_right_mono) (simp_all add: of_int_less_iff [symmetric] del: of_int_less_iff)
  also have "\<dots> = 2 ^ 1024" by (simp add: power_add [symmetric])
  finally have "\<bar>?x\<bar> < 2 ^ 1024" .
  then show ?thesis
    by (simp add: to_double_def rounded_exact [OF assms(1,2)])
qed

lemma to_double_of_int:
  "\<bar>m\<bar> < 2 ^ 53 \<Longrightarrow> to_double (of_int m) = Fin (of_int m)"
  using to_double_exact [of m 0] by simp

lemma to_double_0 [simp]: "to_double 0 = Fin 0"
  using to_double_of_int [of 0] by simp

lemma to_double_1 [simp]: "to_double 1 = Fin 1"
  using to_double_of_int [of 1] by simp

lemma to_double_numeral [simp]:
  "(numeral n :: int) < 2 ^ 53 \<Longrightarrow> to_double (numeral n) = Fin (numeral n)"
  using to_double_of_int [of "numeral n"] by simp

lemma to_double_neg_numeral [simp]:
  "(numeral n :: int) < 2 ^ 53 \<Longrightarrow> to_double (- numeral n) = Fin (- numeral n)"
  using to_double_of_int [of "- numeral n"] by simp


subsection \<open>The descriptors\<close>

lemma animations_addLog [simp]: "animations (addLog m s) = animations s"
  by (simp add: addLog_def)

lemma animations_stopAllAction [simp]: "animations (stopAllAction m s) = animations s"
  by (simp add: stopAllAction_def)

lemma animations_mixer_update [simp]: "animations (mixer_update m d s) = animations s"
  by (simp add: mixer_update_def)

lemma animations_animate [simp]: "animations (animate d u s) = animations s"
  by (simp add: animate_def Let_def split: option.splits)

lemma animations_frame [simp]: "animations (frame d u s) = animations s"
  by (simp add: frame_def split: list.splits)

lemma animations_mountEffect [simp]: "animations (mountEffect p s) = animations s"
  by (simp add: mountEffect_def Let_def split: option.splits)

lemma animations_teardown [simp]: "animations (teardown p a b s) = animations s"
  by (simp add: teardown_def Let_def split: option.splits)

lemma animations_togglePause [simp]: "animations (togglePause s) = animations s"
  by (simp add: togglePause_def Let_def split: option.splits)

lemma animations_handleKeyPress [simp]: "animations (handleKeyPress s) = animations s"
  by (simp add: handleKeyPress_def)

lemma animations_updateSpeed [simp]: "animations (updateSpeed v s) = animations s"
  by (simp add: updateSpeed_def Let_def split: option.splits)

lemma animations_onProgress [simp]: "animations (onProgress r c p s) = animations s"
  by (simp add: onProgress_def Let_def)

lemma animations_loadAnimationModel [simp]:
  "animations (loadAnimationModel sp pa now thr a s) = animations s"
  by (simp add: loadAnimationModel_def Let_def split: option.splits)

lemma animations_handleAnimationChange:
  "animations (handleAnimationChange a s) = animations s
   \<or> animations (handleAnimationChange a s) = activateOnly a (animations s)"
  by (simp add: handleAnimationChange_def activateOnly_def Let_def split: option.splits)

lemma animations_setupAnimation [simp]:
  "animations (setupAnimation r f fault s) =
     (if fault = NoFault then markLoadedActive (req_animationId r) (animations s)
      else animations s)"
  by (simp add: setupAnimation_def markLoadedActive_def Let_def split: setup_fault.splits)

lemma clips_autoScaleAndCenter [simp]: "clips (snd (autoScaleAndCenter f)) = clips f"
  by (simp add: autoScaleAndCenter_def Let_def split: prod.splits)

lemma handle_autoScaleAndCenter [simp]: "handle (snd (autoScaleAndCenter f)) = handle f"
  by (simp add: autoScaleAndCenter_def Let_def split: prod.splits)

lemma clips_setupMaterials [simp]: "clips (setupMaterials f) = clips f"
  by (simp add: setupMaterials_def)

lemma handle_setupMaterials [simp]: "handle (setupMaterials f) = handle f"
  by (simp add: setupMaterials_def)

lemma animations_onLoad:
  "animations (onLoad r f fault s) =
     (if loader_loadingId r = loadId r \<and> sceneRef s \<noteq> None \<and> 0 < clips f \<and> fault = NoFault
      then markLoadedActive (req_animationId r) (animations s) else animations s)"
proof -
  obtain msgs f1 where sc: "autoScaleAndCenter f = (msgs, f1)"
    by (cases "autoScaleAndCenter f")
  then have "clips f1 = clips f"
    using clips_autoScaleAndCenter [of f] by simp
  with sc show ?thesis
    by (simp add: onLoad_def Let_def addLog_def split: option.splits)
qed

lemma animations_onError:
  "animations (onError r s) = deactivate (req_animationId r) (animations s)"
  by (simp add: onError_def deactivate_def Let_def)

lemma animations_fireTimer:
  "animations (fireTimer t now thr s) = animations s
   \<or> animations (fireTimer t now thr s) = activateOnly ''startwalk'' (animations s)"
  by (cases t) (simp_all add: activateOnly_def Let_def)

lemma animations_step: "updated (animations s) (animations (step e s))"
proof (cases e)
  case (TimerFires n now thr)
  then show ?thesis
    using animations_fireTimer [of "timers s ! n" now thr
        "s\<lparr>timers := take n (timers s) @ drop (Suc n) (timers s)\<rparr>"]
    by (auto simp add: updated_def)
next
  case (LoadSucceeds k f fault)
  then show ?thesis
    by (auto simp add: updated_def complete_def animations_onLoad split: option.splits)
next
  case (LoadFails k)
  then show ?thesis
    by (auto simp add: updated_def complete_def animations_onError split: option.splits)
next
  case (SelectOption a)
  then show ?thesis
    using animations_handleAnimationChange [of a s] by (auto simp add: updated_def)
qed (auto simp add: updated_def split: option.splits)

lemma filter_key_le_one:
  "distinct (map f xs) \<Longrightarrow> length (filter (\<lambda>x. f x = t) xs) \<le> Suc 0"
  by (induction xs) (auto simp: image_iff filter_empty_conv)

lemma updated_ids: "updated ds ds' \<Longrightarrow> map anim_id ds' = map anim_id ds"
  by (auto simp: updated_def activateOnly_def markLoadedActive_def deactivate_def)

lemma deactivate_count:
  "length (filter active (deactivate t ds)) \<le> length (filter active ds)"
  by (induction ds) (auto simp: deactivate_def)

lemma updated_count:
  assumes "updated ds ds'" and "distinct (map anim_id ds)"
    and "length (filter active ds) \<le> Suc 0"
  shows "length (filter active ds') \<le> Suc 0"
proof -
  have a: "length (filter active (activateOnly t ds)) \<le> Suc 0" for t
    using filter_key_le_one [OF assms(2), of t]
    by (simp add: activateOnly_def filter_map comp_def)
  have b: "length (filter active (markLoadedActive t ds)) \<le> Suc 0" for t
    using filter_key_le_one [OF assms(2), of t]
    by (simp add: markLoadedActive_def filter_map comp_def)
  have c: "length (filter active (deactivate t ds)) \<le> Suc 0" for t
    using deactivate_count [of t ds] assms(3) by simp
  from assms(1) show ?thesis
    using a b c assms(3) by (auto simp: updated_def)
qed

lemma one_active_step: "one_active s \<Longrightarrow> one_active (step e s)"
  using animations_step [of s e]
  by (auto simp: one_active_def updated_ids dest: updated_count)

lemma one_active_run: "one_active s \<Longrightarrow> one_active (run es s)"
  by (induction es arbitrary: s) (auto simp: one_active_step)

lemma one_active_initial: "one_active initial_state"
  by (simp add: one_active_def initial_state_def initial_animations_def)


lemma map_active_updaters:
  "map active (activateOnly t ds) = map (\<lambda>d. anim_id d = t) ds"
  "map active (markLoadedActive t ds) = map (\<lambda>d. anim_id d = t) ds"
  "map active (deactivate t ds) = map (\<lambda>d. active d \<and> anim_id d \<noteq> t) ds"
  by (auto simp: activateOnly_def markLoadedActive_def deactivate_def)

lemma animations_select:
  "animations (handleAnimationChange a s) =
     (case find (\<lambda>anim. anim_id anim = a) (animations s) of
        None \<Rightarrow> animations s
      | Some d \<Rightarrow> if active d then animations s else activateOnly a (animations s))"
  by (simp add: handleAnimationChange_def activateOnly_def Let_def split: option.splits)

lemma animations_timer:
  "animations (step (TimerFires n now thr) s) =
     (if n < length (timers s)
      then (case timers s ! n of
              InitialLoadTimer sp pa \<Rightarrow> activateOnly ''startwalk'' (animations s)
            | SelectionTimer t sp pa \<Rightarrow> animations s)
      else animations s)"
  by (simp add: activateOnly_def Let_def split: timer.splits)

lemma animations_succeeds:
  "animations (step (LoadSucceeds k f fault) s) =
     (case find (\<lambda>r. req_no r = k) (inflight s) of
        None \<Rightarrow> animations s
      | Some r \<Rightarrow>
         if loader_loadingId r = loadId r \<and> sceneRef s \<noteq> None \<and> 0 < clips f \<and> fault = NoFault
         then markLoadedActive (req_animationId r) (animations s) else animations s)"
  by (auto simp add: complete_def animations_onLoad split: option.splits)

lemma animations_fails:
  "animations (step (LoadFails k) s) =
     (case find (\<lambda>r. req_no r = k) (inflight s) of
        None \<Rightarrow> animations s
      | Some r \<Rightarrow> deactivate (req_animationId r) (animations s))"
  by (simp add: complete_def animations_onError split: option.splits)

lemma animations_other:
  "animations (step (Mount p) s) = animations s"
  "animations (step (Unmount p a b) s) = animations s"
  "animations (step (LoadProgresses k c pc) s) = animations s"
  "animations (step ClickPause s) = animations s"
  "animations (step PressSpace s) = animations s"
  "animations (step (MoveSpeedSlider v) s) = animations s"
  "animations (step (Frame dl u) s) = animations s"
  by (simp_all split: option.splits)

text \<open>
  C3. After any sequence of events from the initial state at most one descriptor is
  active. Every update of the list is of one of these kinds. A selection of a known id
  that is not active makes the descriptor with the chosen id active and no other; the
  initial mount's timer does so for \<^verbatim>\<open>startwalk\<close>; a load that succeeds (scene present, a
  clip, no fault) does so for its request's id and marks it loaded; a load that fails
  takes the flag from its request's id and leaves the other flags. Any other event, and
  each of these where its condition fails, leaves the list as it is.
\<close>

theorem at_most_one_active:
  "length (filter active (animations (run es initial_state))) \<le> 1
   \<and> animations (step (SelectOption a) s) =
       (case find (\<lambda>anim. anim_id anim = a) (animations s) of
          None \<Rightarrow> animations s
        | Some d \<Rightarrow> if active d then animations s else activateOnly a (animations s))
   \<and> animations (step (TimerFires n now thr) s) =
       (if n < length (timers s)
        then (case timers s ! n of
                InitialLoadTimer sp pa \<Rightarrow> activateOnly ''startwalk'' (animations s)
              | SelectionTimer t sp pa \<Rightarrow> animations s)
        else animations s)
   \<and> animations (step (LoadSucceeds k f fault) s) =
       (case find (\<lambda>r. req_no r = k) (inflight s) of
          None \<Rightarrow> animations s
        | Some r \<Rightarrow>
           if loader_loadingId r = loadId r \<and> sceneRef s \<noteq> None \<and> 0 < clips f
              \<and> fault = NoFault
           then markLoadedActive (req_animationId r) (animations s) else animations s)
   \<and> animations (step (LoadFails k) s) =
       (case find (\<lambda>r. req_no r = k) (inflight s) of
          None \<Rightarrow> animations s
        | Some r \<Rightarrow> deactivate (req_animationId r) (animations s))
   \<and> animations (step (Mount p) s) = animations s
   \<and> animations (step (Unmount p st dt) s) = animations s
   \<and> animations (step (LoadProgresses k c pc) s) = animations s
   \<and> animations (step ClickPause s) = animations s
   \<and> animations (step PressSpace s) = animations s
   \<and> animations (step (MoveSpeedSlider v) s) = animations s
   \<and> animations (step (Frame dl u) s) = animations s
   \<and> map active (activateOnly t ds) = map (\<lambda>d. anim_id d = t) ds
   \<and> map active (markLoadedActive t ds) = map (\<lambda>d. anim_id d = t) ds
   \<and> map active (deactivate t ds) = map (\<lambda>d. active d \<and> anim_id d \<noteq> t) ds
   \<and> map anim_id (activateOnly t ds) = map anim_id ds
   \<and> map anim_id (markLoadedActive t ds) = map anim_id ds
   \<and> map anim_id (deactivate t ds) = map anim_id ds"
proof -
  have one: "length (filter active (animations (run es initial_state))) \<le> 1"
    using one_active_run [OF one_active_initial, of es] by (simp add: one_active_def)
  have ids: "map anim_id (activateOnly t ds) = map anim_id ds"
    "map anim_id (markLoadedActive t ds) = map anim_id ds"
    "map anim_id (deactivate t ds) = map anim_id ds"
    by (simp_all add: activateOnly_def markLoadedActive_def deactivate_def)
  have sel: "animations (step (SelectOption a) s) =
       (case find (\<lambda>anim. anim_id anim = a) (animations s) of
          None \<Rightarrow> animations s
        | Some d \<Rightarrow> if active d then animations s else activateOnly a (animations s))"
    by (simp add: animations_select)
  show ?thesis
    by (intro conjI one sel animations_timer animations_succeeds animations_fails
          animations_other map_active_updaters ids)
qed

theorem at_most_one_active_witness:
  "length (filter active (animations (run walking initial_state))) \<le> 1
   \<and> active_ids (run walking initial_state) = [''startwalk'']
   \<and> active_ids (step (SelectOption ''seated'') (run walking initial_state)) = [''seated'']
   \<and> map active (activateOnly ''seated'' initial_animations)
       = [False, True, False, False, False]"
proof -
  have a: "map (\<lambda>d. (anim_id d, active d)) (animations (run walking initial_state)) =
      [(''startwalk'', True), (''seated'', False), (''shakehand'', False),
       (''drinking'', False), (''jumping'', False)]"
    by (simp add: scenario_defs walking_def handler_defs cong: let_weak_cong)
  have b: "active_ids (run walking initial_state) = [''startwalk'']"
    and c: "active_ids (step (SelectOption ''seated'') (run walking initial_state)) = [''seated'']"
    by (simp_all add: scenario_defs walking_def active_ids_def handler_defs cong: let_weak_cong)
  from at_most_one_active [where es = walking and a = "''seated''"
      and s = "run walking initial_state" and t = "''seated''" and ds = initial_animations]
  show ?thesis using b c by (simp add: initial_animations_def)
qed

subsection \<open>Teardown and the frame loop\<close>

lemma frame_view_addLog [simp]: "frame_view (addLog m s) = frame_view s"
  by (simp add: frame_view_def addLog_def)

lemma frame_view_stopAllAction [simp]: "frame_view (stopAllAction m s) = frame_view s"
  by (simp add: frame_view_def stopAllAction_def)

lemma frame_view_togglePause [simp]: "frame_view (togglePause s) = frame_view s"
  by (simp add: frame_view_def togglePause_def addLog_def Let_def split: option.splits)

lemma frame_view_handleKeyPress [simp]: "frame_view (handleKeyPress s) = frame_view s"
  by (simp add: handleKeyPress_def)

lemma frame_view_updateSpeed [simp]: "frame_view (updateSpeed v s) = frame_view s"
  by (simp add: frame_view_def updateSpeed_def addLog_def Let_def split: option.splits)

lemma frame_view_onProgress [simp]: "frame_view (onProgress r c p s) = frame_view s"
  by (simp add: frame_view_def onProgress_def addLog_def Let_def)

lemma frame_view_onError [simp]: "frame_view (onError r s) = frame_view s"
  by (simp add: frame_view_def onError_def addLog_def Let_def)

lemma frame_view_handleAnimationChange [simp]:
  "frame_view (handleAnimationChange a s) = frame_view s"
  by (simp add: frame_view_def handleAnimationChange_def addLog_def Let_def split: option.splits)

lemma frame_view_loadAnimationModel [simp]:
  "frame_view (loadAnimationModel sp pa now thr a s) = frame_view s"
  by (simp add: frame_view_def loadAnimationModel_def addLog_def stopAllAction_def Let_def
        split: option.splits)

lemma frame_view_setupAnimation [simp]:
  "frame_view (setupAnimation r f fault s) = frame_view s"
  by (simp add: frame_view_def setupAnimation_def addLog_def Let_def split: setup_fault.splits)

lemma setupAnimation_frame_fields [simp]:
  "pendingFrames (setupAnimation r f fault s) = pendingFrames s"
  "animationFrameIdRef (setupAnimation r f fault s) = animationFrameIdRef s"
  "nextFrameId (setupAnimation r f fault s) = nextFrameId s"
  "sceneRef (setupAnimation r f fault s) = sceneRef s"
  by (simp_all add: setupAnimation_def addLog_def Let_def split: setup_fault.splits)

lemma frame_view_onLoad [simp]: "frame_view (onLoad r f fault s) = frame_view s"
  unfolding frame_view_def
  by (simp add: onLoad_def addLog_def Let_def split: option.splits prod.splits)

lemma frame_view_fireTimer [simp]: "frame_view (fireTimer t now thr s) = frame_view s"
proof (cases t)
  case (InitialLoadTimer sp pa)
  have "frame_view (loadAnimationModel sp pa now thr ''startwalk'' s) = frame_view s"
    by simp
  with InitialLoadTimer show ?thesis
    by (simp add: frame_view_def Let_def)
qed simp

lemma frame_view_complete:
  "(\<And>r t. frame_view (cb r t) = frame_view t) \<Longrightarrow> frame_view (complete k cb s) = frame_view s"
proof -
  assume cb: "\<And>r t. frame_view (cb r t) = frame_view t"
  have "frame_view (s\<lparr>inflight := xs\<rparr>) = frame_view s" for xs
    by (simp add: frame_view_def)
  then show ?thesis
    by (simp add: complete_def cb split: option.splits)
qed

lemma frames_tracked_view:
  "frame_view s' = frame_view s \<Longrightarrow> frames_tracked s \<Longrightarrow> frames_tracked s'"
  by (auto simp: frame_view_def frames_tracked_def)

lemma frames_tracked_animate:
  assumes "0 < nextFrameId s" and "pendingFrames s = []" and "sceneRef s \<noteq> None"
  shows "frames_tracked (animate d u s)"
  using assms
  by (simp add: frames_tracked_def animate_def addLog_def mixer_update_def Let_def
        split: option.splits)

lemma frames_tracked_frame: "frames_tracked s \<Longrightarrow> frames_tracked (frame d u s)"
proof (cases "pendingFrames s")
  case Nil
  assume "frames_tracked s"
  with Nil show ?thesis by (simp add: frame_def)
next
  case (Cons i rest)
  assume t: "frames_tracked s"
  with Cons have "rest = []" and "sceneRef s \<noteq> None" and "0 < nextFrameId s"
    by (auto simp: frames_tracked_def)
  then have "frames_tracked (animate d u (s\<lparr>pendingFrames := rest\<rparr>))"
    by (intro frames_tracked_animate) simp_all
  with Cons show ?thesis by (simp add: frame_def)
qed

lemma frames_tracked_mountEffect:
  assumes "frames_tracked s" shows "frames_tracked (mountEffect p s)"
proof (cases "sceneRef s")
  case (Some ch)
  then have "frame_view (mountEffect p s) = frame_view s"
    by (simp add: mountEffect_def frame_view_def addLog_def Let_def)
  from this assms show ?thesis by (rule frames_tracked_view)
next
  case None
  with assms have e: "pendingFrames s = []" and n: "0 < nextFrameId s"
    by (auto simp: frames_tracked_def)
  show ?thesis
  proof (cases p)
    case False
    with None e n show ?thesis
      by (simp add: mountEffect_def frames_tracked_def addLog_def Let_def)
  next
    case True
    have c: "frames_tracked (u\<lparr>cleanupRegistered := b\<rparr>) = frames_tracked u" for u b
      by (simp add: frames_tracked_def)
    from None True e n show ?thesis
      by (simp add: mountEffect_def addLog_def scene_add_def Let_def c frames_tracked_animate)
  qed
qed

lemma pendingFrames_teardown_eq:
  "pendingFrames (teardown p a b s) =
     (case animationFrameIdRef s of
        None \<Rightarrow> pendingFrames s
      | Some i \<Rightarrow> if i = 0 then pendingFrames s else removeAll i (pendingFrames s))"
  by (simp add: teardown_def addLog_def stopAllAction_def Let_def split: option.splits)

lemma pendingFrames_teardown:
  "frames_tracked s \<Longrightarrow> pendingFrames (teardown p a b s) = []"
  by (auto simp add: frames_tracked_def pendingFrames_teardown_eq split: option.splits)

lemma teardown_refs:
  "sceneRef (teardown p a b s) = None \<and> mixerRef (teardown p a b s) = None
   \<and> animationFrameIdRef (teardown p a b s) = None
   \<and> inflight (teardown p a b s) = inflight s
   \<and> nextFrameId (teardown p a b s) = nextFrameId s"
  by (simp add: teardown_def addLog_def stopAllAction_def Let_def split: option.splits)

lemma frames_tracked_teardown:
  "frames_tracked s \<Longrightarrow> frames_tracked (teardown p a b s)"
  using pendingFrames_teardown [of s p a b] teardown_refs [of p a b s]
  by (simp add: frames_tracked_def)

lemma frames_tracked_step: "frames_tracked s \<Longrightarrow> frames_tracked (step e s)"
proof (cases e)
  case (LoadSucceeds k f fault)
  assume "frames_tracked s"
  moreover have "frame_view (step e s) = frame_view s"
    unfolding LoadSucceeds step.simps by (rule frame_view_complete) simp
  ultimately show ?thesis by (metis frames_tracked_view)
next
  case (LoadFails k)
  assume "frames_tracked s"
  moreover have "frame_view (step e s) = frame_view s"
    unfolding LoadFails step.simps by (rule frame_view_complete) simp
  ultimately show ?thesis by (metis frames_tracked_view)
next
  case (TimerFires n now thr)
  assume "frames_tracked s"
  moreover have "frame_view (step e s) = frame_view s"
    using frame_view_fireTimer [of "timers s ! n" now thr
        "s\<lparr>timers := take n (timers s) @ drop (Suc n) (timers s)\<rparr>"]
    by (simp add: TimerFires frame_view_def)
  ultimately show ?thesis by (metis frames_tracked_view)
qed (auto simp: frames_tracked_mountEffect frames_tracked_teardown frames_tracked_frame
       intro: frames_tracked_view split: option.splits)

lemma frames_tracked_run: "frames_tracked s \<Longrightarrow> frames_tracked (run es s)"
  by (induction es arbitrary: s) (auto simp: frames_tracked_step)

lemma frames_tracked_initial: "frames_tracked initial_state"
  by (simp add: frames_tracked_def initial_state_def)

lemma onLoad_without_scene:
  assumes "sceneRef s = None"
  shows "sceneRef (onLoad r f fault s) = None \<and> mixerRef (onLoad r f fault s) = mixerRef s
         \<and> currentAnimationRef (onLoad r f fault s) = currentAnimationRef s
         \<and> calls (onLoad r f fault s) = calls s
         \<and> framesRendered (onLoad r f fault s) = framesRendered s
         \<and> pendingFrames (onLoad r f fault s) = pendingFrames s"
  using assms by (simp add: onLoad_def addLog_def Let_def split: prod.splits)

lemma onError_refs:
  "sceneRef (onError r s) = sceneRef s \<and> modelRef (onError r s) = modelRef s
   \<and> mixerRef (onError r s) = mixerRef s
   \<and> currentAnimationRef (onError r s) = currentAnimationRef s
   \<and> calls (onError r s) = calls s"
  by (simp add: onError_def addLog_def Let_def)


text \<open>
  C7. Take the state after any sequence of events and run the teardown, whatever the
  engine's calls inside its \<^verbatim>\<open>try\<close> blocks do and with loads still in flight (they stay in
  flight). Afterwards no frame callback is scheduled, so a later frame changes nothing.
  A load that completes after the teardown finds no scene: the success callback leaves
  the scene ref empty, creates no mixer, calls nothing in the engine and renders nothing;
  the error callback does not touch the scene either.
\<close>

theorem teardown_leaves_no_frame:
  fixes es :: "event list" and mountPresent stopThrows disposeThrows :: bool
  defines "t \<equiv> teardown mountPresent stopThrows disposeThrows (run es initial_state)"
  shows "pendingFrames t = [] \<and> animationFrameIdRef t = None
         \<and> step (Frame delta updateThrows) t = t
         \<and> inflight t = inflight (run es initial_state)
         \<and> sceneRef t = None
         \<and> sceneRef (step (LoadSucceeds k f fault) t) = None
         \<and> mixerRef (step (LoadSucceeds k f fault) t) = None
         \<and> calls (step (LoadSucceeds k f fault) t) = calls t
         \<and> framesRendered (step (LoadSucceeds k f fault) t) = framesRendered t
         \<and> pendingFrames (step (LoadSucceeds k f fault) t) = []
         \<and> sceneRef (step (LoadFails k) t) = None
         \<and> calls (step (LoadFails k) t) = calls t"
proof -
  have tr: "frames_tracked (run es initial_state)"
    by (rule frames_tracked_run [OF frames_tracked_initial])
  have p: "pendingFrames t = []"
    unfolding t_def by (rule pendingFrames_teardown [OF tr])
  have r: "sceneRef t = None" "mixerRef t = None" "animationFrameIdRef t = None"
    "inflight t = inflight (run es initial_state)"
    unfolding t_def by (simp_all add: teardown_refs)
  have fr: "step (Frame delta updateThrows) t = t"
    using p by (simp add: frame_def)
  have ok: "sceneRef (step (LoadSucceeds k f fault) t) = None
      \<and> mixerRef (step (LoadSucceeds k f fault) t) = None
      \<and> calls (step (LoadSucceeds k f fault) t) = calls t
      \<and> framesRendered (step (LoadSucceeds k f fault) t) = framesRendered t
      \<and> pendingFrames (step (LoadSucceeds k f fault) t) = []"
  proof (cases "find (\<lambda>r. req_no r = k) (inflight t)")
    case None
    then show ?thesis using r p by (simp add: complete_def)
  next
    case (Some q)
    let ?u = "t\<lparr>inflight := filter (\<lambda>r. req_no r \<noteq> k) (inflight t)\<rparr>"
    have "sceneRef ?u = None" using r by simp
    from onLoad_without_scene [OF this] show ?thesis
      using Some r p by (simp add: complete_def)
  qed
  have er: "sceneRef (step (LoadFails k) t) = None \<and> calls (step (LoadFails k) t) = calls t"
    using r by (simp add: complete_def onError_refs split: option.splits)
  show ?thesis using p r fr ok er by simp
qed

theorem teardown_leaves_no_frame_witness:
  "inflight (run loading_first initial_state) \<noteq> []
   \<and> pendingFrames (run loading_first initial_state) = [1]
   \<and> pendingFrames (teardown False True True (run loading_first initial_state)) = []
   \<and> step (Frame 1 False) (teardown False True True (run loading_first initial_state))
       = teardown False True True (run loading_first initial_state)
   \<and> sceneRef (step (LoadSucceeds 0 asset NoFault)
         (teardown False True True (run loading_first initial_state))) = None"
proof -
  have "inflight (run loading_first initial_state) \<noteq> []
      \<and> pendingFrames (run loading_first initial_state) = [1]"
    by (simp add: scenario_defs loading_first_def handler_defs cong: let_weak_cong)
  with teardown_leaves_no_frame [where es = loading_first and mountPresent = False
      and stopThrows = True and disposeThrows = True and delta = 1 and updateThrows = False
      and k = 0 and f = asset and fault = NoFault]
  show ?thesis by simp
qed

subsection \<open>Playback controls and selection\<close>

text \<open>
  C9. For a speed \<open>v\<close> with \<open>0 < v \<le> 2\<close>, \<^verbatim>\<open>updateSpeed\<close> stores \<open>v\<close> in the speed state, and
  when a mixer and a current action are attached the action gets the time scale \<open>v\<close> and
  is otherwise the same action: same clip time, same paused and scheduled flags.
\<close>

theorem updateSpeed_live_mixer:
  assumes "0 < v" and "v \<le> 2"
  shows "speed (updateSpeed v s) = v
         \<and> (\<forall>m a. mixerRef s = Some m \<longrightarrow> currentAnimationRef s = Some a \<longrightarrow>
               currentAnimationRef (updateSpeed v s) = Some (a\<lparr>timeScale := v\<rparr>)
               \<and> mixerRef (updateSpeed v s) = Some m)
         \<and> modelRef (updateSpeed v s) = modelRef s
         \<and> isPaused (updateSpeed v s) = isPaused s"
  by (simp add: updateSpeed_def addLog_def setEffectiveTimeScale_def Let_def
        split: option.splits)


theorem updateSpeed_live_mixer_witness:
  "(0::real) < 3/2 \<and> (3/2::real) \<le> 2
   \<and> speed (updateSpeed (3/2) (run (walking @ [Frame 2 False]) initial_state)) = 3/2
   \<and> map_option timeScale
         (currentAnimationRef (run (walking @ [Frame 2 False]) initial_state)) = Some 1
   \<and> map_option timeScale
         (currentAnimationRef (updateSpeed (3/2) (run (walking @ [Frame 2 False]) initial_state)))
       = Some (3/2)
   \<and> map_option clipTime
         (currentAnimationRef (updateSpeed (3/2) (run (walking @ [Frame 2 False]) initial_state)))
       = Some 2"
proof -
  have m: "mixerRef (run (walking @ [Frame 2 False]) initial_state)
             = Some \<lparr>mixer_id = 1, mixer_root = 0\<rparr>"
    by (simp add: scenario_defs walking_def handler_defs cong: let_weak_cong)
  have a: "currentAnimationRef (run (walking @ [Frame 2 False]) initial_state)
             = Some \<lparr>owner = 1, timeScale = 1, paused = False, enabled = True,
                     scheduled = True, clipTime = 2, loopInfinite = True,
                     clampWhenFinished = False\<rparr>"
    by (simp add: scenario_defs walking_def handler_defs cong: let_weak_cong)
  have "(0::real) < 3/2" and "(3/2::real) \<le> 2" by simp_all
  from updateSpeed_live_mixer [OF this, of "run (walking @ [Frame 2 False]) initial_state"]
  show ?thesis using m a by simp
qed

text \<open>
  C10. An id that matches no descriptor: \<^verbatim>\<open>handleAnimationChange\<close> appends the diagnostic
  to the log and changes nothing else; in particular no timer is started and no load is
  issued.
\<close>

theorem handleAnimationChange_unknown_id:
  assumes "animationId \<notin> set (map anim_id (animations s))"
  shows "handleAnimationChange animationId s
           = s\<lparr>log_entries := log_entries s @ [AnimationNotFound animationId]\<rparr>
         \<and> step (SelectOption animationId) s = handleAnimationChange animationId s
         \<and> timers (handleAnimationChange animationId s) = timers s
         \<and> inflight (handleAnimationChange animationId s) = inflight s"
proof -
  have "find (\<lambda>anim. anim_id anim = animationId) (animations s) = None"
    using assms by (auto simp: find_None_iff)
  then show ?thesis
    by (simp add: handleAnimationChange_def addLog_def)
qed


theorem handleAnimationChange_unknown_id_witness:
  "''dancing'' \<notin> set (map anim_id (animations initial_state))
   \<and> handleAnimationChange ''dancing'' initial_state
       = initial_state\<lparr>log_entries := [AnimationNotFound ''dancing'']\<rparr>"
proof -
  have h: "''dancing'' \<notin> set (map anim_id (animations initial_state))"
    by (simp add: initial_state_def initial_animations_def)
  from handleAnimationChange_unknown_id [OF h] show ?thesis
    using h by (simp add: initial_state_def)
qed

subsection \<open>Loading: issue, completion, failure\<close>

lemma loadAnimationModel_refs:
  assumes "sceneRef s = Some ch"
  shows "modelRef (loadAnimationModel sp pa now thr a s) = None"
    and "mixerRef (loadAnimationModel sp pa now thr a s) = None"
    and "currentAnimationRef (loadAnimationModel sp pa now thr a s) =
           (case mixerRef s of None \<Rightarrow> currentAnimationRef s | Some m \<Rightarrow> None)"
    and "sceneRef (loadAnimationModel sp pa now thr a s) =
           Some (case modelRef s of None \<Rightarrow> ch
                 | Some old \<Rightarrow> removeAll (FbxModel (handle old) (length (meshes old))) ch)"
    and "calls (loadAnimationModel sp pa now thr a s) =
           calls s @ (case mixerRef s of None \<Rightarrow> []
                      | Some m \<Rightarrow> [StopAllAction (mixer_id m)])"
  using assms
  by (auto simp add: loadAnimationModel_def addLog_def stopAllAction_def scene_remove_def
        Let_def split: option.splits)

lemma calls_setupAnimation [simp]: "calls (setupAnimation r f fault s) = calls s"
  by (simp add: setupAnimation_def addLog_def Let_def split: setup_fault.splits)

lemma calls_onLoad: "calls (onLoad r f fault s) = calls s"
  by (simp add: onLoad_def addLog_def Let_def split: option.splits prod.splits)

lemma inflight_addLog [simp]: "inflight (addLog m s) = inflight s"
  by (simp add: addLog_def)

lemma inflight_stopAllAction [simp]: "inflight (stopAllAction m s) = inflight s"
  by (simp add: stopAllAction_def)

lemma inflight_animate [simp]: "inflight (animate d u s) = inflight s"
  by (simp add: animate_def mixer_update_def Let_def split: option.splits)

lemma inflight_frame [simp]: "inflight (frame d u s) = inflight s"
  by (simp add: frame_def split: list.splits)

lemma inflight_mountEffect [simp]: "inflight (mountEffect p s) = inflight s"
  by (simp add: mountEffect_def Let_def split: option.splits)

lemma inflight_togglePause [simp]: "inflight (togglePause s) = inflight s"
  by (simp add: togglePause_def Let_def split: option.splits)

lemma inflight_handleKeyPress [simp]: "inflight (handleKeyPress s) = inflight s"
  by (simp add: handleKeyPress_def)

lemma inflight_updateSpeed [simp]: "inflight (updateSpeed v s) = inflight s"
  by (simp add: updateSpeed_def Let_def split: option.splits)

lemma inflight_onProgress [simp]: "inflight (onProgress r c p s) = inflight s"
  by (simp add: onProgress_def Let_def)

lemma inflight_onError [simp]: "inflight (onError r s) = inflight s"
  by (simp add: onError_def Let_def)

lemma inflight_handleAnimationChange [simp]:
  "inflight (handleAnimationChange a s) = inflight s"
  by (simp add: handleAnimationChange_def Let_def split: option.splits)

lemma inflight_setupAnimation [simp]: "inflight (setupAnimation r f fault s) = inflight s"
  by (simp add: setupAnimation_def Let_def split: setup_fault.splits)

lemma inflight_onLoad [simp]: "inflight (onLoad r f fault s) = inflight s"
  by (simp add: onLoad_def Let_def split: option.splits prod.splits)

lemma tokens_match_loadAnimationModel:
  "tokens_match s \<Longrightarrow> tokens_match (loadAnimationModel sp pa now thr a s)"
  by (auto simp add: tokens_match_def loadAnimationModel_def Let_def split: option.splits)

lemma tokens_match_fireTimer: "tokens_match s \<Longrightarrow> tokens_match (fireTimer t now thr s)"
proof (cases t)
  case (InitialLoadTimer sp pa)
  assume "tokens_match s"
  then have "tokens_match (loadAnimationModel sp pa now thr ''startwalk'' s)"
    by (rule tokens_match_loadAnimationModel)
  with InitialLoadTimer show ?thesis by (simp add: tokens_match_def Let_def)
qed (simp add: tokens_match_loadAnimationModel)

lemma tokens_match_step: "tokens_match s \<Longrightarrow> tokens_match (step e s)"
proof (cases e)
  case (TimerFires n now thr)
  assume "tokens_match s"
  then have "tokens_match (s\<lparr>timers := take n (timers s) @ drop (Suc n) (timers s)\<rparr>)"
    by (simp add: tokens_match_def)
  then show ?thesis
    using \<open>tokens_match s\<close> by (simp add: TimerFires tokens_match_fireTimer)
qed (auto simp add: tokens_match_def complete_def teardown_refs split: option.splits)

lemma tokens_match_run: "tokens_match s \<Longrightarrow> tokens_match (run es s)"
  by (induction es arbitrary: s) (auto simp: tokens_match_step)

lemma stale_branch_unreachable:
  "r \<in> set (inflight (run es initial_state)) \<Longrightarrow> loader_loadingId r = loadId r"
  using tokens_match_run [of initial_state es]
  by (simp add: tokens_match_def initial_state_def)

lemma nextObject_addLog [simp]: "nextObject (addLog m s) = nextObject s"
  by (simp add: addLog_def)

lemma nextObject_stopAllAction [simp]: "nextObject (stopAllAction m s) = nextObject s"
  by (simp add: stopAllAction_def)

lemma nextObject_animate [simp]: "nextObject (animate d u s) = nextObject s"
  by (simp add: animate_def mixer_update_def Let_def split: option.splits)

lemma nextObject_frame [simp]: "nextObject (frame d u s) = nextObject s"
  by (simp add: frame_def split: list.splits)

lemma nextObject_mountEffect [simp]: "nextObject (mountEffect p s) = nextObject s"
  by (simp add: mountEffect_def Let_def split: option.splits)

lemma nextObject_teardown [simp]: "nextObject (teardown p a b s) = nextObject s"
  by (simp add: teardown_def Let_def split: option.splits)

lemma nextObject_togglePause [simp]: "nextObject (togglePause s) = nextObject s"
  by (simp add: togglePause_def Let_def split: option.splits)

lemma nextObject_handleKeyPress [simp]: "nextObject (handleKeyPress s) = nextObject s"
  by (simp add: handleKeyPress_def)

lemma nextObject_updateSpeed [simp]: "nextObject (updateSpeed v s) = nextObject s"
  by (simp add: updateSpeed_def Let_def split: option.splits)

lemma nextObject_onProgress [simp]: "nextObject (onProgress r c p s) = nextObject s"
  by (simp add: onProgress_def Let_def)

lemma nextObject_onError [simp]: "nextObject (onError r s) = nextObject s"
  by (simp add: onError_def Let_def)

lemma nextObject_handleAnimationChange [simp]:
  "nextObject (handleAnimationChange a s) = nextObject s"
  by (simp add: handleAnimationChange_def Let_def split: option.splits)

lemma nextObject_setupAnimation [simp]:
  "nextObject (setupAnimation r f fault s) =
     (if fault = MixerConstructorThrows then nextObject s else Suc (nextObject s))"
  by (simp add: setupAnimation_def Let_def split: setup_fault.splits)














text \<open>
  C1. The spec wants a completion to change model, mixer and descriptors only when its
  request is the one issued last. The code gives every call of \<^verbatim>\<open>loadAnimationModel\<close> a
  loader of its own and compares that loader's \<^verbatim>\<open>loadingId\<close> with the \<^verbatim>\<open>loadId\<close> just stored
  in it, so the comparison never finds a difference (\<open>stale_branch_unreachable\<close>). In the
  scenario \<open>overtaken\<close> the load of \<^verbatim>\<open>startwalk\<close> is still in flight when \<^verbatim>\<open>seated\<close> has been
  selected, loaded and made active. When the superseded load then succeeds, its asset
  becomes the model, a mixer is built on it and \<^verbatim>\<open>startwalk\<close> becomes the active
  descriptor, while \<^verbatim>\<open>seated\<close> stays selected and both models hang in the scene.
\<close>

theorem stale_completion_is_applied:
  "map req_animationId (inflight (run overtaken initial_state)) = [''startwalk'']
   \<and> map_option handle (modelRef (run overtaken initial_state)) = Some 1
   \<and> active_ids (run overtaken initial_state) = [''seated'']
   \<and> map_option handle
         (modelRef (run (overtaken @ [LoadSucceeds 0 asset NoFault]) initial_state)) = Some 0
   \<and> map_option mixer_root
         (mixerRef (run (overtaken @ [LoadSucceeds 0 asset NoFault]) initial_state)) = Some 0
   \<and> active_ids (run (overtaken @ [LoadSucceeds 0 asset NoFault]) initial_state)
       = [''startwalk'']
   \<and> selectedAnimation (run (overtaken @ [LoadSucceeds 0 asset NoFault]) initial_state)
       = ''seated''
   \<and> sceneRef (run (overtaken @ [LoadSucceeds 0 asset NoFault]) initial_state)
       = Some [GridHelper, AmbientLight, DirectionalLight, FbxModel 1 1, FbxModel 0 1]"
  by (simp add: scenario_defs overtaken_def loading_first_def active_ids_def
        handler_defs cong: let_weak_cong)





text \<open>
  C5, as the code has it. Issuing a load, with a scene present, empties the model ref
  and takes the former model out of the scene, stops the former mixer and empties the
  mixer ref (and with it the action ref); this is before the completion of that load
  can attach the new asset. Neither issuing a load nor the success callback disposes
  anything: the calls into the engine grow by the mixer's stop at most.
\<close>

theorem load_issue_detaches:
  assumes "sceneRef s = Some ch"
  shows "modelRef (loadAnimationModel sp pa now thr a s) = None
   \<and> mixerRef (loadAnimationModel sp pa now thr a s) = None
   \<and> currentAnimationRef (loadAnimationModel sp pa now thr a s) =
        (case mixerRef s of None \<Rightarrow> currentAnimationRef s | Some m \<Rightarrow> None)
   \<and> sceneRef (loadAnimationModel sp pa now thr a s) =
        Some (case modelRef s of None \<Rightarrow> ch
              | Some old \<Rightarrow> removeAll (FbxModel (handle old) (length (meshes old))) ch)
   \<and> calls (loadAnimationModel sp pa now thr a s) =
        calls s @ (case mixerRef s of None \<Rightarrow> [] | Some m \<Rightarrow> [StopAllAction (mixer_id m)])
   \<and> calls (onLoad r f fault t) = calls t"
  using loadAnimationModel_refs [OF assms] calls_onLoad by simp

theorem load_issue_detaches_witness:
  "sceneRef (run (walking @ [SelectOption ''seated'']) initial_state)
     = Some [GridHelper, AmbientLight, DirectionalLight, FbxModel 0 1]
   \<and> modelRef (loadAnimationModel 1 False 2000 False ''seated''
         (run (walking @ [SelectOption ''seated'']) initial_state)) = None
   \<and> mixerRef (loadAnimationModel 1 False 2000 False ''seated''
         (run (walking @ [SelectOption ''seated'']) initial_state)) = None
   \<and> sceneRef (loadAnimationModel 1 False 2000 False ''seated''
         (run (walking @ [SelectOption ''seated'']) initial_state))
       = Some [GridHelper, AmbientLight, DirectionalLight]
   \<and> calls (loadAnimationModel 1 False 2000 False ''seated''
         (run (walking @ [SelectOption ''seated'']) initial_state)) = [StopAllAction 1]"
proof -
  let ?prev = "run (walking @ [SelectOption ''seated'']) initial_state"
  have sc: "sceneRef ?prev = Some [GridHelper, AmbientLight, DirectionalLight, FbxModel 0 1]"
    by (simp add: scenario_defs walking_def handler_defs cong: let_weak_cong)
  have md: "map_option (\<lambda>m. (handle m, length (meshes m))) (modelRef ?prev) = Some (0, 1)"
    and mx: "map_option mixer_id (mixerRef ?prev) = Some 1"
    and cl: "calls ?prev = []"
    by (simp_all add: scenario_defs walking_def handler_defs cong: let_weak_cong)
  from load_issue_detaches [OF sc, of 1 False 2000 False "''seated''"] sc md mx cl
  show ?thesis
    by (auto split: option.splits)
qed

text \<open>
  C5 as stated does not hold: \<^verbatim>\<open>startwalk\<close>'s model (object 0) is replaced by \<^verbatim>\<open>seated\<close>'s
  (object 2) after a successful load; the only call into the engine is the stop of the
  old mixer, and the resources of object 0 are never disposed.
\<close>

theorem replaced_model_is_not_disposed:
  "map_option handle (modelRef (run walking initial_state)) = Some 0
   \<and> map_option handle
         (modelRef (run (walking @ select_seated @ [LoadSucceeds 2 asset NoFault]) initial_state))
       = Some 2
   \<and> sceneRef (run (walking @ select_seated @ [LoadSucceeds 2 asset NoFault]) initial_state)
       = Some [GridHelper, AmbientLight, DirectionalLight, FbxModel 2 1]
   \<and> calls (run (walking @ select_seated @ [LoadSucceeds 2 asset NoFault]) initial_state)
       = [StopAllAction 1]
   \<and> DisposeResources (FbxModel 0 1)
       \<notin> set (calls (run (walking @ select_seated @ [LoadSucceeds 2 asset NoFault]) initial_state))"
  by (simp add: scenario_defs walking_def select_seated_def handler_defs cong: let_weak_cong)

subsection \<open>Pausing\<close>

text \<open>What \<^verbatim>\<open>togglePause\<close> does when flag and action agree, and without a mixer.\<close>

lemma togglePause_twice_in_sync:
  assumes "mixerRef s = Some m" and "currentAnimationRef s = Some a"
    and "paused a = isPaused s"
  shows "isPaused (togglePause (togglePause s)) = isPaused s"
    and "currentAnimationRef (togglePause (togglePause s)) = Some a"
  using assms by (simp_all add: togglePause_def addLog_def Let_def)

lemma togglePause_without_mixer:
  "mixerRef s = None \<or> currentAnimationRef s = None \<Longrightarrow> togglePause s = s"
  by (auto simp: togglePause_def split: option.splits)

text \<open>A selection resets the flag, but the success callback applies the \<^verbatim>\<open>isPaused\<close> and
  \<^verbatim>\<open>speed\<close> its request has captured, whatever the state holds by then.\<close>

lemma selection_resets_pause:
  "find (\<lambda>anim. anim_id anim = a) (animations s) = Some d \<Longrightarrow> \<not> active d
     \<Longrightarrow> isPaused (handleAnimationChange a s) = False"
  by (simp add: handleAnimationChange_def addLog_def Let_def)

lemma setupAnimation_applies_captured_pause:
  "map_option paused (currentAnimationRef (setupAnimation r f NoFault s)) = Some (req_isPaused r)
   \<and> map_option timeScale (currentAnimationRef (setupAnimation r f NoFault s)) = Some (req_speed r)
   \<and> isPaused (setupAnimation r f NoFault s) = isPaused s
   \<and> speed (setupAnimation r f NoFault s) = speed s"
  by (simp add: setupAnimation_def addLog_def action_play_def action_reset_def isRunning_def
        Let_def)

lemma onLoad_applies_captured_pause:
  assumes "loader_loadingId r = loadId r" and "sceneRef s = Some ch" and "0 < clips f"
  shows "map_option paused (currentAnimationRef (onLoad r f NoFault s)) = Some (req_isPaused r)"
    and "isPaused (onLoad r f NoFault s) = isPaused s"
proof -
  obtain msgs f1 where sc: "autoScaleAndCenter f = (msgs, f1)"
    by (cases "autoScaleAndCenter f")
  then have c: "0 < clips f1"
    using clips_autoScaleAndCenter [of f] assms(3) by simp
  show "map_option paused (currentAnimationRef (onLoad r f NoFault s)) = Some (req_isPaused r)"
    using assms(1,2) sc c
    by (simp add: onLoad_def Let_def addLog_def setupAnimation_applies_captured_pause)
  show "isPaused (onLoad r f NoFault s) = isPaused s"
    using assms(1,2) sc c
    by (simp add: onLoad_def Let_def addLog_def setupAnimation_applies_captured_pause)
qed

text \<open>
  C4. The spec wants a clip loaded by a fresh selection to follow the paused flag as it
  is when the load completes, which the selection has reset to false. In the code the
  success callback reads the \<^verbatim>\<open>isPaused\<close> of the render in which the selection was made.
  Scenario: the first clip is paused, then \<^verbatim>\<open>seated\<close> is selected (the flag becomes false)
  and its load succeeds: the flag is false and yet the new action is paused, and a
  frame does not advance it (in general: \<open>onLoad_applies_captured_pause\<close>).
\<close>

theorem selection_while_paused_loads_paused:
  "isPaused (run (walking @ [ClickPause]) initial_state) = True
   \<and> isPaused (run (walking @ [ClickPause, SelectOption ''seated'']) initial_state) = False
   \<and> isPaused (run paused_then_seated initial_state) = False
   \<and> map_option paused (currentAnimationRef (run paused_then_seated initial_state)) = Some True
   \<and> active_ids (run paused_then_seated initial_state) = [''seated'']
   \<and> map_option clipTime
         (currentAnimationRef (run (paused_then_seated @ [Frame 1 False]) initial_state))
       = Some 0"
  by (simp add: scenario_defs walking_def select_seated_def paused_then_seated_def active_ids_def
        handler_defs cong: let_weak_cong)

text \<open>
  C8. The spec wants two calls of \<^verbatim>\<open>togglePause\<close> to restore the flag and the action's
  paused property. In the state the scenario of C4 ends in, a mixer is attached, the
  flag is false and the action is paused; after two calls the flag is false again but
  the action is no longer paused.
\<close>

theorem togglePause_twice_out_of_sync:
  "mixerRef (run paused_then_seated initial_state) \<noteq> None
   \<and> isPaused (run paused_then_seated initial_state) = False
   \<and> map_option paused (currentAnimationRef (run paused_then_seated initial_state)) = Some True
   \<and> isPaused (togglePause (togglePause (run paused_then_seated initial_state))) = False
   \<and> map_option paused
         (currentAnimationRef (togglePause (togglePause (run paused_then_seated initial_state))))
       = Some False"
  by (simp add: scenario_defs walking_def select_seated_def paused_then_seated_def
        handler_defs cong: let_weak_cong)

subsection \<open>Scaling and centring\<close>








lemma autoScaleAndCenter_box [simp]: "box (snd (autoScaleAndCenter f)) = box f"
  by (simp add: autoScaleAndCenter_def Let_def split: prod.splits)













end
